theory Spec2Isabelle
  imports Main "HOL-Library.Word"
begin

unbundle bit_operations_syntax

section \<open>Machine words of \<open>include/linux/nospec.h\<close>\<close>

text \<open>
  Every primitive of the header computes on \<^verbatim>\<open>unsigned long\<close>. Its width,
  \<^verbatim>\<open>BITS_PER_LONG\<close>, is fixed by the target architecture and not by this header, so
  the width is the type parameter \<open>'a\<close> of \<open>'a word\<close>: 64 on LP64 targets, 32 on ILP32
  ones. Subtraction on \<open>'a word\<close> wraps modulo \<open>2 ^ LENGTH('a)\<close>, as C's unsigned
  arithmetic does. The cast \<^verbatim>\<open>(long)\<close> keeps the bit pattern, \<^verbatim>\<open>~\<close> is \<open>NOT\<close>, and
  \<^verbatim>\<open>>>\<close> on a \<^verbatim>\<open>long\<close> is the arithmetic shift \<open>signed_drop_bit\<close> (the only
  behaviour the kernel's compilers implement); the returned \<^verbatim>\<open>long\<close> is read back as
  \<^verbatim>\<open>unsigned long\<close> with the same bits.
\<close>

definition BITS_PER_LONG :: "'a::len itself \<Rightarrow> nat" where
  "BITS_PER_LONG t = LENGTH('a)"

text \<open>
  Modelled from the spec: the macro \<^verbatim>\<open>OPTIMIZER_HIDE_VAR\<close> of \<^verbatim>\<open>linux/compiler.h\<close>,
  which is not among the sources. It hides the origin of a value from the optimiser and
  has "no functional side effect on the value itself".
\<close>

definition OPTIMIZER_HIDE_VAR :: "'a::len word \<Rightarrow> 'a word" where
  "OPTIMIZER_HIDE_VAR var = var"

section \<open>The index mask and the index sanitizer\<close>

text \<open>
  \<^verbatim>\<open>return ~(long)(index | (size - 1UL - index)) >> (BITS_PER_LONG - 1);\<close>
  The unary \<^verbatim>\<open>~\<close> binds tighter than the shift.
\<close>

definition array_index_mask_nospec :: "'a::len word \<Rightarrow> 'a word \<Rightarrow> 'a word" where
  "array_index_mask_nospec index size' =
     (let index = OPTIMIZER_HIDE_VAR index in
      signed_drop_bit (BITS_PER_LONG TYPE('a) - 1)
        (NOT (index OR (size' - 1 - index))))"

text \<open>
  The macro \<^verbatim>\<open>array_index_nospec(index, size)\<close> at the type \<^verbatim>\<open>unsigned long\<close>:
  \<^verbatim>\<open>_mask = array_index_mask_nospec(_i, _s); (typeof(_i)) (_i & _mask)\<close>. The two
  \<^verbatim>\<open>BUILD_BUG_ON\<close> lines reject operands wider than a \<^verbatim>\<open>long\<close> when the program is
  built; operands of the type \<open>'a word\<close> pass them.
\<close>

definition array_index_nospec :: "'a::len word \<Rightarrow> 'a word \<Rightarrow> 'a word" where
  "array_index_nospec index size' =
     (let i = index; s = size';
          mask = array_index_mask_nospec i s
      in i AND mask)"

section \<open>The speculation fence\<close>

text \<open>
  \<^verbatim>\<open>#define barrier_nospec() do { } while (0)\<close>: a do-while loop with an empty body and
  the constant condition 0. The loop construct is modelled once, for any state; a run that
  never leaves the loop has the value \<open>None\<close>.
\<close>

partial_function (option) do_while :: "('s \<Rightarrow> 's) \<Rightarrow> ('s \<Rightarrow> bool) \<Rightarrow> 's \<Rightarrow> 's option" where
  "do_while body cond s =
     (let s' = body s in if cond s' then do_while body cond s' else Some s')"

definition barrier_nospec :: "'s \<Rightarrow> 's option" where
  "barrier_nospec s = do_while (\<lambda>s. s) (\<lambda>s. False) s"

section \<open>The equality mask and the magic-guarded pointer\<close>

text \<open>
  \<^verbatim>\<open>return ((long)((x ^ y) ^ ((x ^ y) - 1))) >> (BITS_PER_LONG - 1);\<close>
\<close>

definition neq_mask_nospec :: "'a::len word \<Rightarrow> 'a word \<Rightarrow> 'a word" where
  "neq_mask_nospec x y =
     (let x = OPTIMIZER_HIDE_VAR x; y = OPTIMIZER_HIDE_VAR y in
      signed_drop_bit (BITS_PER_LONG TYPE('a) - 1)
        ((x XOR y) XOR ((x XOR y) - 1)))"

text \<open>
  A structure with a guard field \<^verbatim>\<open>spec_magic\<close> (here of the type \<^verbatim>\<open>unsigned long\<close>, the
  widest that the \<^verbatim>\<open>BUILD_BUG_ON\<close> lines admit) and one payload field, as in the
  header's example \<^verbatim>\<open>x = p->val\<close>. Memory maps the address of each live structure to
  its contents; the null pointer is the address 0. Reading \<^verbatim>\<open>_p->spec_magic\<close> through
  an address that holds no structure is a fault.
\<close>

record 'w guarded =
  spec_magic :: 'w
  val :: 'w

type_synonym 'a memory = "'a word \<rightharpoonup> 'a word guarded"

datatype fault = Bad_Dereference

definition magic_neq_nospec ::
  "'a::len memory \<Rightarrow> 'a word \<Rightarrow> 'a word \<Rightarrow> fault + 'a word" where
  "magic_neq_nospec mem p magic =
     (case mem p of
        None \<Rightarrow> Inl Bad_Dereference
      | Some obj \<Rightarrow>
          (let p_spec_magic = spec_magic obj;
               mask = neq_mask_nospec p_spec_magic magic
           in Inr (p AND mask)))"

section \<open>The sign bit of a word\<close>

lemma len_split: "(2::int) ^ LENGTH('a::len) = 2 * 2 ^ (LENGTH('a) - 1)"
  by (cases "LENGTH('a)") simp_all

lemma shift_replicates_sign:
  "signed_drop_bit (LENGTH('a) - 1) (w::'a::len word) =
     (if bit w (LENGTH('a) - 1) then - 1 else 0)"
proof (rule bit_word_eqI)
  fix n assume "n < LENGTH('a)"
  then show "bit (signed_drop_bit (LENGTH('a) - 1) w) n =
             bit (if bit w (LENGTH('a) - 1) then - 1 else (0::'a word)) n"
    by (cases n) (simp_all add: bit_signed_drop_bit_iff)
qed

lemma sign_bit_uint:
  "bit (w::'a::len word) (LENGTH('a) - 1) \<longleftrightarrow> 2 ^ (LENGTH('a) - 1) \<le> uint w"
proof -
  let ?h = "(2::int) ^ (LENGTH('a) - 1)"
  have lt: "uint w < 2 * ?h"
    using uint_lt2p [of w] by (simp add: len_split [where ?'a = 'a])
  have ge: "0 \<le> uint w" by simp
  have "bit w (LENGTH('a) - 1) \<longleftrightarrow> bit (uint w) (LENGTH('a) - 1)"
    by (simp add: bit_uint_iff)
  also have "\<dots> \<longleftrightarrow> odd (uint w div ?h)"
    by (simp add: bit_iff_odd)
  also have "\<dots> \<longleftrightarrow> ?h \<le> uint w"
  proof (cases "?h \<le> uint w")
    case True
    then have "uint w div ?h = 1"
      using lt by (intro int_div_pos_eq [where r = "uint w - ?h"]) simp_all
    with True show ?thesis by simp
  next
    case False
    then have "uint w div ?h = 0" using ge by simp
    with False show ?thesis by simp
  qed
  finally show ?thesis .
qed

lemma uint_sub_sub:
  "uint (s - 1 - i :: 'a::len word) = (uint s - 1 - uint i) mod 2 ^ LENGTH('a)"
proof -
  have "uint (s - 1 - i) = (uint (s - 1) - uint i) mod 2 ^ LENGTH('a)"
    by (simp add: uint_word_ariths)
  also have "uint (s - 1) = (uint s - 1) mod 2 ^ LENGTH('a)"
    by (simp add: uint_word_ariths)
  finally show ?thesis by (simp add: mod_diff_left_eq)
qed

lemma in_bounds_sign_clear:
  fixes index size' :: "'a::len word"
  assumes lt: "index < size'" and sz: "uint size' \<le> 2 ^ (LENGTH('a) - 1)"
  shows "\<not> bit (index OR (size' - 1 - index)) (LENGTH('a) - 1)"
proof -
  define h :: int where "h = 2 ^ (LENGTH('a) - 1)"
  define d where "d = uint size' - 1 - uint index"
  have full: "(2::int) ^ LENGTH('a) = 2 * h"
    unfolding h_def by (rule len_split)
  have sb: "bit w (LENGTH('a) - 1) \<longleftrightarrow> h \<le> uint w" for w :: "'a word"
    unfolding h_def by (rule sign_bit_uint)
  from lt have ui: "uint index < uint size'" by (simp add: word_less_def)
  have i0: "0 \<le> uint index" by simp
  from sz have sh: "uint size' \<le> h" by (simp add: h_def)
  have d: "0 \<le> d" "d < h" "d < 2 * h"
    unfolding d_def using ui sh i0 by linarith+
  have "uint (size' - 1 - index) = d mod (2 * h)"
    unfolding d_def full [symmetric] by (rule uint_sub_sub)
  also have "\<dots> = d" using d by simp
  finally have "\<not> h \<le> uint (size' - 1 - index)" using d by simp
  then have "\<not> bit (size' - 1 - index) (LENGTH('a) - 1)"
    by (simp only: sb simp_thms)
  moreover have "\<not> h \<le> uint index" using ui sh by simp
  then have "\<not> bit index (LENGTH('a) - 1)"
    by (simp only: sb simp_thms)
  ultimately show ?thesis by (simp only: bit_or_iff simp_thms)
qed

lemma out_of_bounds_sign_set:
  fixes index size' :: "'a::len word"
  assumes ge: "size' \<le> index"
  shows "bit (index OR (size' - 1 - index)) (LENGTH('a) - 1)"
proof (cases "bit index (LENGTH('a) - 1)")
  case True
  then show ?thesis by (simp only: bit_or_iff simp_thms)
next
  case False
  define h :: int where "h = 2 ^ (LENGTH('a) - 1)"
  define d where "d = uint size' - 1 - uint index"
  have full: "(2::int) ^ LENGTH('a) = 2 * h"
    unfolding h_def by (rule len_split)
  have sb: "bit w (LENGTH('a) - 1) \<longleftrightarrow> h \<le> uint w" for w :: "'a word"
    unfolding h_def by (rule sign_bit_uint)
  from False have ih: "uint index < h" by (simp only: sb not_le)
  from ge have ui: "uint size' \<le> uint index" by (simp add: word_le_def)
  have s0: "0 \<le> uint size'" by simp
  have d: "- h \<le> d" "d < 0" unfolding d_def using ih ui s0 by linarith+
  have "uint (size' - 1 - index) = d mod (2 * h)"
    unfolding d_def full [symmetric] by (rule uint_sub_sub)
  also have "\<dots> = (d + 2 * h) mod (2 * h)" by simp
  also have "\<dots> = d + 2 * h"
    using d by (intro mod_pos_pos_trivial) simp_all
  finally have "h \<le> uint (size' - 1 - index)" using d by simp
  then have "bit (size' - 1 - index) (LENGTH('a) - 1)"
    by (simp only: sb simp_thms)
  then show ?thesis by (simp only: bit_or_iff simp_thms)
qed

text \<open>The index mask, read off the sign bit of \<open>index | (size - 1 - index)\<close>.\<close>

lemma array_index_mask_nospec_sign:
  "array_index_mask_nospec index size' =
     (if bit (index OR (size' - 1 - index)) (LENGTH('a) - 1) then 0 else - 1)"
  for index size' :: "'a::len word"
proof -
  define t where "t = index OR (size' - 1 - index)"
  have n: "LENGTH('a) - 1 < LENGTH('a)" by simp
  have nb: "bit (NOT t) (LENGTH('a) - 1) \<longleftrightarrow> \<not> bit t (LENGTH('a) - 1)"
    using n by (simp only: bit_not_iff_eq fold_possible_bit possible_bit_word simp_thms)
  have "array_index_mask_nospec index size' = signed_drop_bit (LENGTH('a) - 1) (NOT t)"
    unfolding array_index_mask_nospec_def OPTIMIZER_HIDE_VAR_def BITS_PER_LONG_def Let_def t_def
    by (rule refl)
  also have "\<dots> = (if bit (NOT t) (LENGTH('a) - 1) then - 1 else 0)"
    by (rule shift_replicates_sign)
  also have "\<dots> = (if bit t (LENGTH('a) - 1) then 0 else - 1)"
    unfolding nb by simp
  finally show ?thesis unfolding t_def .
qed

lemma array_index_mask_nospec_out_of_bounds:
  "size' \<le> index \<Longrightarrow> array_index_mask_nospec index size' = 0"
  by (simp only: array_index_mask_nospec_sign out_of_bounds_sign_set if_True)

lemma array_index_mask_nospec_in_bounds:
  fixes index size' :: "'a::len word"
  assumes "index < size'" and "uint size' \<le> 2 ^ (LENGTH('a) - 1)"
  shows "array_index_mask_nospec index size' = - 1"
  using in_bounds_sign_clear [OF assms] by (simp only: array_index_mask_nospec_sign if_False)

text \<open>The equality mask, read off the sign bit of \<open>d ^ (d - 1)\<close> for \<open>d = x ^ y\<close>.\<close>

lemma uint_sign_word: "uint (2 ^ (LENGTH('a) - 1) :: 'a::len word) = 2 ^ (LENGTH('a) - 1)"
proof -
  have "(2::int) ^ (LENGTH('a) - 1) < 2 ^ LENGTH('a)"
    by (rule power_strict_increasing) simp_all
  then have "(2::int) ^ (LENGTH('a) - 1) mod 2 ^ LENGTH('a) = 2 ^ (LENGTH('a) - 1)"
    by (intro mod_pos_pos_trivial) simp_all
  moreover have "uint (word_of_int (2 ^ (LENGTH('a) - 1)) :: 'a word)
      = 2 ^ (LENGTH('a) - 1) mod 2 ^ LENGTH('a)"
    by (simp only: uint_word_of_int)
  ultimately show ?thesis by (simp only: word_of_int_2p)
qed

lemma xor_pred_sign:
  fixes d :: "'a::len word"
  shows "bit (d XOR (d - 1)) (LENGTH('a) - 1) \<longleftrightarrow> d = 0 \<or> d = 2 ^ (LENGTH('a) - 1)"
proof -
  define h :: int where "h = 2 ^ (LENGTH('a) - 1)"
  have full: "(2::int) ^ LENGTH('a) = 2 * h"
    unfolding h_def by (rule len_split)
  have sb: "bit w (LENGTH('a) - 1) \<longleftrightarrow> h \<le> uint w" for w :: "'a word"
    unfolding h_def by (rule sign_bit_uint)
  have hpos: "0 < h" by (simp add: h_def)
  have uh: "uint (2 ^ (LENGTH('a) - 1) :: 'a word) = h"
    unfolding h_def by (rule uint_sign_word)
  have x: "bit (d XOR (d - 1)) (LENGTH('a) - 1) \<longleftrightarrow> (h \<le> uint d) \<noteq> (h \<le> uint (d - 1))"
  proof -
    have "bit (d XOR (d - 1)) (LENGTH('a) - 1)
        \<longleftrightarrow> bit d (LENGTH('a) - 1) \<noteq> bit (d - 1) (LENGTH('a) - 1)"
      by (simp only: bit_xor_iff)
    then show ?thesis unfolding sb .
  qed
  show ?thesis
  proof (cases "d = 0")
    case True
    then have "d XOR (d - 1) = - 1" by simp
    moreover have "bit (- 1 :: 'a word) (LENGTH('a) - 1)" by simp
    ultimately show ?thesis using True by simp
  next
    case False
    then have "uint d \<noteq> 0" by (simp add: uint_0_iff)
    then have "1 \<le> uint d" using uint_ge_0 [of d] by linarith
    then have "uint (d - 1) = uint d - 1"
      by (simp add: uint_sub_if')
    then have "(h \<le> uint d) \<noteq> (h \<le> uint (d - 1)) \<longleftrightarrow> uint d = h"
      by auto
    also have "\<dots> \<longleftrightarrow> d = 2 ^ (LENGTH('a) - 1)"
      unfolding uh [symmetric] by (simp only: word_uint_eq_iff)
    finally show ?thesis using False unfolding x by simp
  qed
qed

lemma neq_mask_nospec_sign:
  "neq_mask_nospec x y =
     (if x XOR y = 0 \<or> x XOR y = 2 ^ (LENGTH('a) - 1) then - 1 else 0)"
  for x y :: "'a::len word"
proof -
  define d where "d = x XOR y"
  have "neq_mask_nospec x y = signed_drop_bit (LENGTH('a) - 1) (d XOR (d - 1))"
    unfolding neq_mask_nospec_def OPTIMIZER_HIDE_VAR_def BITS_PER_LONG_def Let_def d_def
    by (rule refl)
  also have "\<dots> = (if bit (d XOR (d - 1)) (LENGTH('a) - 1) then - 1 else 0)"
    by (rule shift_replicates_sign)
  finally show ?thesis unfolding xor_pred_sign d_def .
qed

lemma unat_le_sign_uint:
  fixes w :: "'a::len word"
  assumes "unat w \<le> 2 ^ (LENGTH('a) - 1)"
  shows "uint w \<le> 2 ^ (LENGTH('a) - 1)"
proof -
  from assms have "int (unat w) \<le> int (2 ^ (LENGTH('a) - 1))"
    by (simp only: of_nat_le_iff)
  then show ?thesis by simp
qed

lemma sign_word_neq_0: "(2 ^ (LENGTH('a) - 1) :: 'a::len word) \<noteq> 0"
proof
  assume "(2 ^ (LENGTH('a) - 1) :: 'a word) = 0"
  then have "uint (2 ^ (LENGTH('a) - 1) :: 'a word) = 0" by simp
  then show False by (simp only: uint_sign_word) simp
qed

lemma xor_eq_0_iff_eq: "x XOR y = 0 \<longleftrightarrow> x = y" for x y :: "'a::len word"
proof
  assume "x XOR y = 0"
  then have "x XOR (x XOR y) = x XOR 0" by (rule arg_cong)
  then show "x = y" by (simp add: xor.assoc [symmetric])
next
  assume "x = y"
  then show "x XOR y = 0" by simp
qed

section \<open>The index sanitizer clamps\<close>

text \<open>
  The header's own promise for \<^verbatim>\<open>array_index_nospec\<close> is that the index is clamped
  "within the range of [0, size)". That holds at every pair of words with a non-empty
  range, also where the mask of an in-bounds index is zero.
\<close>

lemma array_index_nospec_clamps:
  fixes index size' :: "'a::len word"
  assumes "0 < size'"
  shows "array_index_nospec index size' < size'"
proof (cases "array_index_mask_nospec index size' = 0")
  case True
  with assms show ?thesis by (simp add: array_index_nospec_def)
next
  case False
  then have "\<not> size' \<le> index"
    using array_index_mask_nospec_out_of_bounds [of size' index] by blast
  moreover from False have "array_index_mask_nospec index size' = - 1"
    by (simp add: array_index_mask_nospec_sign split: if_splits)
  ultimately show ?thesis by (simp add: array_index_nospec_def)
qed

section \<open>Index mask and index sanitizer: the claims\<close>

text \<open>
  Where the code keeps the header's promise "~0 if within bounds [0, @size)": a sufficient
  condition is that \<open>size\<close> is at most \<open>2 ^ (BITS_PER_LONG - 1)\<close>, that is
  \<open>size - 1 \<le> LONG_MAX\<close>. Then neither \<open>index\<close> nor \<open>size - 1 - index\<close> reaches the sign
  bit.
\<close>

lemma array_index_in_bounds_small_size:
  fixes index size' :: "'a::len word"
  assumes "index < size'"
    and "unat size' \<le> 2 ^ (BITS_PER_LONG TYPE('a) - 1)"
  shows "array_index_mask_nospec index size' = - 1 \<and> array_index_nospec index size' = index"
proof -
  from assms(2) have "uint size' \<le> 2 ^ (LENGTH('a) - 1)"
    unfolding BITS_PER_LONG_def by (rule unat_le_sign_uint)
  with assms(1) have "array_index_mask_nospec index size' = - 1"
    by (rule array_index_mask_nospec_in_bounds)
  then show ?thesis by (simp add: array_index_nospec_def)
qed

text \<open>
  C1. The claim reads: for all words with \<open>size \<ge> 1\<close> and \<open>index < size\<close> the mask is
  all-ones and the sanitizer returns \<open>index\<close>. The header says the same ("generate a ~0 mask
  when index < size, 0 otherwise"). The code does not: on 64-bit words, at
  \<open>index = 2 ^ 63\<close> and \<open>size = 2 ^ 63 + 1\<close>, the index is in bounds, its sign bit is set,
  the mask is all-zeros and the sanitizer returns 0.
\<close>

theorem array_index_in_bounds_sign_bit_zeroed:
  "(1::64 word) \<le> 0x8000000000000001 \<and> (0x8000000000000000::64 word) < 0x8000000000000001
   \<and> array_index_mask_nospec (0x8000000000000000::64 word) 0x8000000000000001 = 0
   \<and> array_index_nospec (0x8000000000000000::64 word) 0x8000000000000001 = 0"
  by (simp add: array_index_nospec_def array_index_mask_nospec_def OPTIMIZER_HIDE_VAR_def
      BITS_PER_LONG_def)

text \<open>
  C2. For all words with \<open>index \<ge> size\<close> the mask is all-zeros and the sanitizer returns 0.
\<close>

theorem array_index_out_of_bounds:
  fixes index size' :: "'a::len word"
  assumes "size' \<le> index"
  shows "array_index_mask_nospec index size' = 0 \<and> array_index_nospec index size' = 0"
proof -
  from assms have "array_index_mask_nospec index size' = 0"
    by (rule array_index_mask_nospec_out_of_bounds)
  then show ?thesis by (simp add: array_index_nospec_def)
qed

theorem array_index_out_of_bounds_witness:
  "(5::64 word) \<le> 9 \<and> array_index_mask_nospec (9::64 word) 5 = 0
   \<and> array_index_nospec (9::64 word) 5 = 0"
proof -
  have a: "(5::64 word) \<le> 9" by simp
  from array_index_out_of_bounds [OF a] a show ?thesis by simp
qed

text \<open>
  C5. With no precondition at all, the index mask and the equality mask are each either the
  all-ones word or the all-zeros word.
\<close>

theorem masks_are_full:
  fixes index size' x y :: "'a::len word"
  shows "(array_index_mask_nospec index size' = - 1 \<or> array_index_mask_nospec index size' = 0)
       \<and> (neq_mask_nospec x y = - 1 \<or> neq_mask_nospec x y = 0)"
  by (simp add: array_index_mask_nospec_sign neq_mask_nospec_sign)

text \<open>
  C6. The index sanitizer is idempotent: applied twice with the same \<open>size\<close> it gives what
  it gives applied once.
\<close>

theorem array_index_nospec_idempotent:
  "array_index_nospec (array_index_nospec index size') size' = array_index_nospec index size'"
proof (cases "bit (index OR (size' - 1 - index)) (LENGTH('a) - 1)")
  case True
  then have "array_index_nospec index size' = 0"
    by (simp add: array_index_nospec_def array_index_mask_nospec_sign)
  then show ?thesis by (simp add: array_index_nospec_def)
next
  case False
  then have "array_index_nospec index size' = index"
    by (simp add: array_index_nospec_def array_index_mask_nospec_sign)
  then show ?thesis by simp
qed

text \<open>
  C7. The boundary cases of the index mask: \<open>size = 1, index = 0\<close> gives all-ones;
  \<open>index = size\<close> gives all-zeros, for every \<open>size\<close>; the largest word as index (all bits
  set, \<open>- 1\<close>) with \<open>size = 1\<close> gives all-zeros.
\<close>

theorem array_index_mask_boundaries:
  "array_index_mask_nospec (0::'a::len word) 1 = - 1
   \<and> array_index_mask_nospec (size'::'a word) size' = 0
   \<and> array_index_mask_nospec (- 1::'a word) 1 = 0"
proof -
  have "array_index_mask_nospec (0::'a word) 1 = - 1"
    by (simp add: array_index_mask_nospec_def OPTIMIZER_HIDE_VAR_def)
  moreover have "array_index_mask_nospec size' size' = 0"
    by (rule array_index_mask_nospec_out_of_bounds) simp
  moreover have "array_index_mask_nospec (- 1::'a word) 1 = 0"
    by (rule array_index_mask_nospec_out_of_bounds) simp
  ultimately show ?thesis by simp
qed

text \<open>
  C10. With \<open>size = 0\<close> every index is out of bounds: the mask is all-zeros and the
  sanitizer returns 0.
\<close>

theorem array_index_empty_range:
  "array_index_mask_nospec index (0::'a::len word) = 0 \<and> array_index_nospec index 0 = 0"
proof -
  have "array_index_mask_nospec index (0::'a word) = 0"
    by (rule array_index_mask_nospec_out_of_bounds) simp
  then show ?thesis by (simp add: array_index_nospec_def)
qed

section \<open>Speculation fence: the claim\<close>

text \<open>
  C8. The default \<^verbatim>\<open>barrier_nospec()\<close> takes no argument and returns no value; run from
  any program state it finishes, and the state after it is the state before it.
\<close>

theorem barrier_nospec_noop: "barrier_nospec s = Some s"
  unfolding barrier_nospec_def by (subst do_while.simps) simp

section \<open>Equality mask and magic-guarded pointer: the claims\<close>

text \<open>
  C3. If \<open>x = y\<close> the equality mask is all-ones; if \<open>x \<noteq> y\<close> and the bits in which they
  differ are not the sign bit alone, it is all-zeros.
\<close>

theorem neq_mask_nospec_equal_or_distinct:
  fixes x y :: "'a::len word"
  shows "(x = y \<longrightarrow> neq_mask_nospec x y = - 1)
       \<and> (x \<noteq> y \<and> x XOR y \<noteq> 2 ^ (BITS_PER_LONG TYPE('a) - 1) \<longrightarrow> neq_mask_nospec x y = 0)"
  by (simp add: neq_mask_nospec_sign BITS_PER_LONG_def xor_eq_0_iff_eq)

theorem neq_mask_nospec_equal_or_distinct_witness:
  "neq_mask_nospec (5::64 word) 5 = - 1
   \<and> (5::64 word) \<noteq> 7 \<and> (5::64 word) XOR 7 \<noteq> 2 ^ (BITS_PER_LONG TYPE(64) - 1)
   \<and> neq_mask_nospec (5::64 word) 7 = 0"
proof -
  have a: "(5::64 word) \<noteq> 7" by simp
  have b: "(5::64 word) XOR 7 \<noteq> 2 ^ (BITS_PER_LONG TYPE(64) - 1)"
    by (simp add: BITS_PER_LONG_def)
  from neq_mask_nospec_equal_or_distinct [of "5::64 word" 5]
    neq_mask_nospec_equal_or_distinct [of "5::64 word" 7] a b
  show ?thesis by simp
qed

text \<open>
  C9. The equality mask is all-ones exactly when \<open>x XOR y\<close> is 0 or the word with only the
  sign bit set, and all-zeros exactly in every other case. In particular \<open>x\<close> and \<open>x\<close> with
  its sign bit flipped are unequal and yet get the all-ones mask.
\<close>

theorem neq_mask_nospec_exact:
  fixes x y :: "'a::len word"
  shows "(neq_mask_nospec x y = - 1
            \<longleftrightarrow> x XOR y = 0 \<or> x XOR y = 2 ^ (BITS_PER_LONG TYPE('a) - 1))
       \<and> (neq_mask_nospec x y = 0
            \<longleftrightarrow> \<not> (x XOR y = 0 \<or> x XOR y = 2 ^ (BITS_PER_LONG TYPE('a) - 1)))
       \<and> x \<noteq> x XOR 2 ^ (BITS_PER_LONG TYPE('a) - 1)
       \<and> neq_mask_nospec x (x XOR 2 ^ (BITS_PER_LONG TYPE('a) - 1)) = - 1"
proof -
  have ne: "x \<noteq> x XOR 2 ^ (LENGTH('a) - 1)"
  proof
    assume "x = x XOR 2 ^ (LENGTH('a) - 1)"
    then have "x XOR x = x XOR (x XOR 2 ^ (LENGTH('a) - 1))" by simp
    then have "(2 ^ (LENGTH('a) - 1) :: 'a word) = 0"
      by (simp add: xor.assoc [symmetric])
    with sign_word_neq_0 [where ?'a = 'a] show False by simp
  qed
  have "x XOR (x XOR 2 ^ (LENGTH('a) - 1)) = 2 ^ (LENGTH('a) - 1)"
    by (simp add: xor.assoc [symmetric])
  then have "neq_mask_nospec x (x XOR 2 ^ (LENGTH('a) - 1)) = - 1"
    by (simp add: neq_mask_nospec_sign)
  with ne show ?thesis by (simp add: neq_mask_nospec_sign BITS_PER_LONG_def)
qed

text \<open>
  What \<^verbatim>\<open>magic_neq_nospec\<close> returns for a pointer to a live structure: the pointer when
  the guard field and \<open>magic\<close> are equal or differ in the sign bit alone, the null pointer
  otherwise.
\<close>

lemma magic_neq_nospec_result:
  fixes p magic :: "'a::len word"
  assumes "mem p = Some obj"
  shows "magic_neq_nospec mem p magic =
     Inr (if spec_magic obj XOR magic = 0 \<or> spec_magic obj XOR magic = 2 ^ (LENGTH('a) - 1)
          then p else 0)"
  using assms by (simp add: magic_neq_nospec_def neq_mask_nospec_sign)

text \<open>
  C4. The claim reads: \<^verbatim>\<open>magic_neq_nospec(p, magic)\<close> returns \<open>p\<close> when the guard field of
  \<open>p\<close> equals \<open>magic\<close>, and the null pointer when it differs. The header says the same ("If
  equal, p is returned, otherwise 0"). The code does not: on 64-bit words, for the
  structure at address \<open>0x1000\<close> with guard field 0 and \<open>magic = 2 ^ 63\<close>, the guard differs
  from \<open>magic\<close> and the pointer \<open>0x1000\<close> comes back, not the null pointer.
\<close>

theorem magic_neq_nospec_sign_bit_kept:
  "spec_magic \<lparr>spec_magic = 0, val = 7\<rparr> \<noteq> (0x8000000000000000::64 word)
   \<and> magic_neq_nospec [0x1000 \<mapsto> \<lparr>spec_magic = 0, val = 7\<rparr>] 0x1000 (0x8000000000000000::64 word)
       = Inr 0x1000
   \<and> (0x1000::64 word) \<noteq> 0"
  by (simp add: magic_neq_nospec_def neq_mask_nospec_def OPTIMIZER_HIDE_VAR_def BITS_PER_LONG_def)

end
